theory Spec2Isabelle
  imports Main
begin

section \<open>Mesh input/output notebook: text files, values and exceptions\<close>

text \<open>
  The notebook \<^verbatim>\<open>mesh_io.ipynb\<close> reads a TetGen-style node file and element file with
  plain Python (\<^verbatim>\<open>readline\<close>, \<^verbatim>\<open>split\<close>, \<^verbatim>\<open>int\<close>, \<^verbatim>\<open>float\<close>), hands the numbers to the
  OpenCMISS-Iron library, and writes node and element lists back out.

  A text file opened for reading is modelled by the list of its remaining lines; a line is a
  string of characters with code points below 256, without its line terminator. The
  library is not part of the repository, so what it answers is a parameter of the model:
  the answer of \<^verbatim>\<open>NodesSet\<close>, which may be an exception, and the values read back from
  \<^verbatim>\<open>NodesGet\<close> and from the fields. Only a field that the notebook fills itself is taken
  to hold, for a node and component, the number last stored there. Python's built-in
  conversions
  \<^verbatim>\<open>int\<close> and \<^verbatim>\<open>float\<close> on a token and \<^verbatim>\<open>repr\<close> on a number are parameters of the
  model (\<open>io\<close>, \<open>fo\<close>, \<open>rp\<close>): \<open>None\<close> stands for the \<^verbatim>\<open>ValueError\<close> the built-in raises on a
  token it cannot convert. The type \<open>'f\<close> is the type of Python floats.
\<close>

datatype exn =
    ValueError
  | IndexError
  | MalformedHeaderError
  | TruncatedFileError
  | DanglingNodeReferenceError
  | InvertedElementError
  | LibraryError

text \<open>
  \<open>ValueError\<close> and \<open>IndexError\<close> are the Python exceptions the notebook's own statements
  can raise. The next four are the error kinds named by the specification; the notebook
  defines no exception class, and no definition below produces them. \<open>LibraryError\<close> stands
  for an exception raised inside a call of the library; only a library given as a parameter
  produces it.
\<close>

datatype 'f pynum = PInt int | PFloat 'f

text \<open>
  A \<open>pynum\<close> is a Python number. A \<open>pycell\<close> is an entry of one of the reader's
  pre-allocated rows: the integer it was initialised with, or the token stored into it.
\<close>

datatype pycell = CInt int | CStr string

definition bind_err :: "exn + 'a \<Rightarrow> ('a \<Rightarrow> exn + 'b) \<Rightarrow> exn + 'b" where
  "bind_err m f = (case m of Inl e \<Rightarrow> Inl e | Inr x \<Rightarrow> f x)"

definition is_space :: "char \<Rightarrow> bool" where
  "is_space c =
     (let n = (of_char c :: nat)
      in (9 \<le> n \<and> n \<le> 13) \<or> (28 \<le> n \<and> n \<le> 32) \<or> n = 133 \<or> n = 160)"

text \<open>
  \<^verbatim>\<open>str.split()\<close> without arguments: the maximal runs of non-whitespace characters, in
  order. \<open>tokens cur s\<close> scans \<open>s\<close> with the token under construction \<open>cur\<close>.
\<close>

fun tokens :: "string \<Rightarrow> string \<Rightarrow> string list" where
  "tokens cur [] = (if cur = [] then [] else [cur])"
| "tokens cur (c # cs) =
     (if is_space c then (if cur = [] then tokens [] cs else cur # tokens [] cs)
      else tokens (cur @ [c]) cs)"

definition split_ws :: "string \<Rightarrow> string list" where
  "split_ws s = tokens [] s"

text \<open>\<^verbatim>\<open>f.readline()\<close>: the next line, or the empty string at the end of the file.\<close>

fun readline :: "string list \<Rightarrow> string \<times> string list" where
  "readline [] = ([], [])"
| "readline (l # ls) = (l, ls)"

text \<open>\<^verbatim>\<open>xs[i] = v\<close> on a Python list: \<^verbatim>\<open>IndexError\<close> when \<open>i\<close> is out of range.\<close>

definition list_set :: "'a list \<Rightarrow> nat \<Rightarrow> 'a \<Rightarrow> exn + 'a list" where
  "list_set xs i v = (if i < length xs then Inr (xs[i := v]) else Inl IndexError)"

text \<open>\<^verbatim>\<open>xs[i]\<close> for a non-negative index.\<close>

definition list_get :: "'a list \<Rightarrow> nat \<Rightarrow> exn + 'a" where
  "list_get xs i = (if i < length xs then Inr (xs ! i) else Inl IndexError)"

definition conv :: "(string \<Rightarrow> 'a option) \<Rightarrow> string \<Rightarrow> exn + 'a" where
  "conv f t = (case f t of None \<Rightarrow> Inl ValueError | Some v \<Rightarrow> Inr v)"

section \<open>Reading the node file\<close>

text \<open>
  \<^verbatim>\<open>num_nodes, num_coords, num_attributes, boundary_markers = node_file.readline().split()\<close>
  followed by the four \<^verbatim>\<open>int(...)\<close> conversions. Unpacking a list whose length is not four
  raises \<^verbatim>\<open>ValueError\<close>.
\<close>

definition node_header :: "(string \<Rightarrow> int option) \<Rightarrow> string \<Rightarrow> exn + (int \<times> int \<times> int \<times> int)" where
  "node_header io line =
     (case split_ws line of
        [t0, t1, t2, t3] \<Rightarrow>
          bind_err (conv io t0) (\<lambda>num_nodes.
          bind_err (conv io t1) (\<lambda>num_coords.
          bind_err (conv io t2) (\<lambda>num_attributes.
          bind_err (conv io t3) (\<lambda>boundary_markers.
            Inr (num_nodes, num_coords, num_attributes, boundary_markers)))))
      | _ \<Rightarrow> Inl ValueError)"

text \<open>
  One pass of the loop body, for the rows \<^verbatim>\<open>NodeNums[i] = [0, 0]\<close> and
  \<^verbatim>\<open>NodeCoords[i] = [0] * num_coords\<close>:
  \<^verbatim>\<open>NodeNums[i][0], NodeCoords[i][0], NodeCoords[i][1], NodeCoords[i][2] = line.split()\<close>
  unpacks first (four tokens or \<^verbatim>\<open>ValueError\<close>), then assigns the targets from left to
  right (\<^verbatim>\<open>IndexError\<close> at the first index outside the row), then converts the four
  entries with \<^verbatim>\<open>int\<close> and \<^verbatim>\<open>float\<close>. The result is the pair of finished rows.
\<close>

definition node_line ::
  "(string \<Rightarrow> int option) \<Rightarrow> (string \<Rightarrow> 'f option) \<Rightarrow> int \<Rightarrow> string
     \<Rightarrow> exn + (int list \<times> 'f pynum list)" where
  "node_line io fo num_coords line =
     (case split_ws line of
        [t0, t1, t2, t3] \<Rightarrow>
          bind_err (list_set [CInt 0, CInt 0] 0 (CStr t0)) (\<lambda>_.
          bind_err (list_set (replicate (nat num_coords) (CInt 0)) 0 (CStr t1)) (\<lambda>r0.
          bind_err (list_set r0 1 (CStr t2)) (\<lambda>r1.
          bind_err (list_set r1 2 (CStr t3)) (\<lambda>_.
          bind_err (conv io t0) (\<lambda>n.
          bind_err (conv fo t1) (\<lambda>x.
          bind_err (conv fo t2) (\<lambda>y.
          bind_err (conv fo t3) (\<lambda>z.
            Inr ([n, 0],
                 (replicate (nat num_coords) (PInt 0))
                   [0 := PFloat x, 1 := PFloat y, 2 := PFloat z])))))))))
      | _ \<Rightarrow> Inl ValueError)"

text \<open>
  \<^verbatim>\<open>for i in range(num_nodes)\<close>: \<open>k\<close> counts the passes still to run; the rows are
  returned in file order. An exception in any pass ends the read.
\<close>

fun node_lines ::
  "(string \<Rightarrow> int option) \<Rightarrow> (string \<Rightarrow> 'f option) \<Rightarrow> int \<Rightarrow> nat \<Rightarrow> string list
     \<Rightarrow> exn + (int list list \<times> 'f pynum list list)" where
  "node_lines io fo num_coords 0 fh = Inr ([], [])"
| "node_lines io fo num_coords (Suc k) fh =
     (case readline fh of (line, fh') \<Rightarrow>
        bind_err (node_line io fo num_coords line) (\<lambda>(nn, nc).
        bind_err (node_lines io fo num_coords k fh') (\<lambda>(NodeNums, NodeCoords).
          Inr (nn # NodeNums, nc # NodeCoords))))"

text \<open>
  The whole cell: header, then \<open>num_nodes\<close> entity lines. The result holds the four header
  numbers, \<^verbatim>\<open>NodeNums\<close> and \<^verbatim>\<open>NodeCoords\<close>.
\<close>

definition read_nodes ::
  "(string \<Rightarrow> int option) \<Rightarrow> (string \<Rightarrow> 'f option) \<Rightarrow> string list
     \<Rightarrow> exn + ((int \<times> int \<times> int \<times> int) \<times> int list list \<times> 'f pynum list list)" where
  "read_nodes io fo fh =
     (case readline fh of (header, fh') \<Rightarrow>
        bind_err (node_header io header) (\<lambda>(num_nodes, num_coords, num_attributes, boundary_markers).
        bind_err (node_lines io fo num_coords (nat num_nodes) fh') (\<lambda>(NodeNums, NodeCoords).
          Inr ((num_nodes, num_coords, num_attributes, boundary_markers), NodeNums, NodeCoords))))"

section \<open>Reading the element file\<close>

text \<open>
  \<^verbatim>\<open>num_elements, nodes_per_ele, ele_attributes = elem_file.readline().split()\<close> and the
  three \<^verbatim>\<open>int(...)\<close> conversions.
\<close>

definition elem_header :: "(string \<Rightarrow> int option) \<Rightarrow> string \<Rightarrow> exn + (int \<times> int \<times> int)" where
  "elem_header io line =
     (case split_ws line of
        [t0, t1, t2] \<Rightarrow>
          bind_err (conv io t0) (\<lambda>num_elements.
          bind_err (conv io t1) (\<lambda>nodes_per_ele.
          bind_err (conv io t2) (\<lambda>ele_attributes.
            Inr (num_elements, nodes_per_ele, ele_attributes))))
      | _ \<Rightarrow> Inl ValueError)"

text \<open>
  One pass of the element loop, for the rows \<^verbatim>\<open>Elemindex[i] = [0]\<close> and
  \<^verbatim>\<open>ElemMap[i] = [0] * (nodes_per_ele + ele_attributes)\<close>:
  \<^verbatim>\<open>Elemindex[i][0], ElemMap[i][0], ElemMap[i][1], ElemMap[i][2], ElemMap[i][3] = line.split()\<close>.
  The tokens are stored as they are; nothing is converted or looked up here.
\<close>

definition elem_line :: "int \<Rightarrow> string \<Rightarrow> exn + (pycell list \<times> pycell list)" where
  "elem_line row_len line =
     (case split_ws line of
        [t0, t1, t2, t3, t4] \<Rightarrow>
          bind_err (list_set [CInt 0] 0 (CStr t0)) (\<lambda>ix.
          bind_err (list_set (replicate (nat row_len) (CInt 0)) 0 (CStr t1)) (\<lambda>r0.
          bind_err (list_set r0 1 (CStr t2)) (\<lambda>r1.
          bind_err (list_set r1 2 (CStr t3)) (\<lambda>r2.
          bind_err (list_set r2 3 (CStr t4)) (\<lambda>r3.
            Inr (ix, r3))))))
      | _ \<Rightarrow> Inl ValueError)"

fun elem_lines :: "int \<Rightarrow> nat \<Rightarrow> string list \<Rightarrow> exn + (pycell list list \<times> pycell list list)" where
  "elem_lines row_len 0 fh = Inr ([], [])"
| "elem_lines row_len (Suc k) fh =
     (case readline fh of (line, fh') \<Rightarrow>
        bind_err (elem_line row_len line) (\<lambda>(ix, row).
        bind_err (elem_lines row_len k fh') (\<lambda>(Elemindex, ElemMap).
          Inr (ix # Elemindex, row # ElemMap))))"

definition read_elems ::
  "(string \<Rightarrow> int option) \<Rightarrow> string list
     \<Rightarrow> exn + ((int \<times> int \<times> int) \<times> pycell list list \<times> pycell list list)" where
  "read_elems io fh =
     (case readline fh of (header, fh') \<Rightarrow>
        bind_err (elem_header io header) (\<lambda>(num_elements, nodes_per_ele, ele_attributes).
        bind_err (elem_lines (nodes_per_ele + ele_attributes) (nat num_elements) fh')
          (\<lambda>(Elemindex, ElemMap).
            Inr ((num_elements, nodes_per_ele, ele_attributes), Elemindex, ElemMap))))"

section \<open>Handing the mesh to the library\<close>







text \<open>
  A field of the library holds one number per node and component. The geometric field is
  filled by the loop
  \<^verbatim>\<open>node = NodeNums[i][0]; if NodeDomainGet(node, 1) == computationalNodeNumber: ...\<close>
  with three \<^verbatim>\<open>ParameterSetUpdateNodeDP(..., node, c, NodeCoords[i][c-1])\<close> calls.
  \<open>owner\<close> is the library's \<^verbatim>\<open>NodeDomainGet\<close> and \<open>rank\<close> its
  \<^verbatim>\<open>ComputationalNodeNumberGet\<close>.
\<close>

type_synonym 'f field = "int \<times> nat \<Rightarrow> 'f pynum"

fun geometry_loop ::
  "(int \<Rightarrow> int) \<Rightarrow> int \<Rightarrow> int list list \<Rightarrow> 'f pynum list list \<Rightarrow> nat list \<Rightarrow> 'f field
     \<Rightarrow> exn + 'f field" where
  "geometry_loop owner rank NodeNums NodeCoords [] g = Inr g"
| "geometry_loop owner rank NodeNums NodeCoords (i # is) g =
     bind_err (list_get NodeNums i) (\<lambda>nrow.
     bind_err (list_get nrow 0) (\<lambda>node.
       if owner node = rank then
         bind_err (list_get NodeCoords i) (\<lambda>crow.
         bind_err (list_get crow 0) (\<lambda>nodex.
         bind_err (list_get crow 1) (\<lambda>nodey.
         bind_err (list_get crow 2) (\<lambda>nodez.
           geometry_loop owner rank NodeNums NodeCoords is
             (g((node, 1) := nodex, (node, 2) := nodey, (node, 3) := nodez))))))
       else geometry_loop owner rank NodeNums NodeCoords is g))"

definition set_geometry ::
  "(int \<Rightarrow> int) \<Rightarrow> int \<Rightarrow> int \<Rightarrow> int list list \<Rightarrow> 'f pynum list list \<Rightarrow> 'f field
     \<Rightarrow> exn + 'f field" where
  "set_geometry owner rank num_nodes NodeNums NodeCoords g =
     geometry_loop owner rank NodeNums NodeCoords [0..<nat num_nodes] g"

section \<open>Exporting node and element lists\<close>

text \<open>
  \<^verbatim>\<open>nodes_list = [[0 for coord in range(0, num_coords + 2)] for node in range(0, num_nodes)]\<close>,
  then \<^verbatim>\<open>nodes_list[i] = [node, x, y, z, solution]\<close> for \<^verbatim>\<open>node = i + 1\<close>, the four values
  read from the geometric field \<open>geo\<close> and the solution field \<open>sol\<close>.
\<close>

definition node_record :: "'f field \<Rightarrow> 'f field \<Rightarrow> int \<Rightarrow> 'f pynum list" where
  "node_record geo sol node = [PInt node, geo (node, 1), geo (node, 2), geo (node, 3), sol (node, 1)]"

fun nodes_loop :: "'f field \<Rightarrow> 'f field \<Rightarrow> nat list \<Rightarrow> 'f pynum list list \<Rightarrow> exn + 'f pynum list list" where
  "nodes_loop geo sol [] nodes_list = Inr nodes_list"
| "nodes_loop geo sol (i # is) nodes_list =
     bind_err (list_set nodes_list i (node_record geo sol (int i + 1))) (\<lambda>nodes_list'.
       nodes_loop geo sol is nodes_list')"

definition nodes_list :: "int \<Rightarrow> int \<Rightarrow> 'f field \<Rightarrow> 'f field \<Rightarrow> exn + 'f pynum list list" where
  "nodes_list num_nodes num_coords geo sol =
     nodes_loop geo sol [0..<nat num_nodes]
       (replicate (nat num_nodes) (replicate (nat (num_coords + 2)) (PInt 0)))"

text \<open>
  \<^verbatim>\<open>elements_list = [[0 for i in range(5)] for elem in range(num_elem)]\<close>, then
  \<^verbatim>\<open>elements_list[j] = [elemidx, elemnodes[0], ..., elemnodes[3]]\<close> for
  \<^verbatim>\<open>elemidx = j + 1\<close>. \<open>nodes_get e k\<close> is entry \<open>k\<close> of the library's
  \<^verbatim>\<open>meshElements.NodesGet(e, 4)\<close>.
\<close>

definition elem_record :: "(int \<Rightarrow> nat \<Rightarrow> int) \<Rightarrow> int \<Rightarrow> int list" where
  "elem_record nodes_get elemidx =
     [elemidx, nodes_get elemidx 0, nodes_get elemidx 1, nodes_get elemidx 2, nodes_get elemidx 3]"

fun elements_loop :: "(int \<Rightarrow> nat \<Rightarrow> int) \<Rightarrow> nat list \<Rightarrow> int list list \<Rightarrow> exn + int list list" where
  "elements_loop nodes_get [] elements_list = Inr elements_list"
| "elements_loop nodes_get (j # js) elements_list =
     bind_err (list_set elements_list j (elem_record nodes_get (int j + 1))) (\<lambda>elements_list'.
       elements_loop nodes_get js elements_list')"

definition elements_list :: "int \<Rightarrow> (int \<Rightarrow> nat \<Rightarrow> int) \<Rightarrow> exn + int list list" where
  "elements_list num_elem nodes_get =
     elements_loop nodes_get [0..<nat num_elem] (replicate (nat num_elem) (replicate 5 0))"

text \<open>
  \<^verbatim>\<open>str(line)\<close> of a Python list: the \<^verbatim>\<open>repr\<close> of its entries, separated by a comma and
  a space, in square brackets. \<^verbatim>\<open>writelines([str(line) + "\n" for line in xs])\<close> writes one
  line per record.
\<close>

fun join_comma :: "string list \<Rightarrow> string" where
  "join_comma [] = []"
| "join_comma [s] = s"
| "join_comma (s # t # ss) = s @ '', '' @ join_comma (t # ss)"

definition py_str_list :: "('a \<Rightarrow> string) \<Rightarrow> 'a list \<Rightarrow> string" where
  "py_str_list rp xs = ''['' @ join_comma (map rp xs) @ '']''"

definition node_file_lines :: "('f pynum \<Rightarrow> string) \<Rightarrow> 'f pynum list list \<Rightarrow> string list" where
  "node_file_lines rp nl = map (py_str_list rp) nl"

definition elem_file_lines :: "('f pynum \<Rightarrow> string) \<Rightarrow> int list list \<Rightarrow> string list" where
  "elem_file_lines rp el = map (py_str_list (\<lambda>n. rp (PInt n))) el"

text \<open>
  The array export: \<^verbatim>\<open>nodesx = np.array(nodes_list[:][1])\<close> and likewise with the indices
  2, 3 and 4. \<^verbatim>\<open>nodes_list[:]\<close> is a copy of the whole list, so the index selects a record.
  The result holds the contents of the four arrays saved as \<^verbatim>\<open>.x.npy\<close>, \<^verbatim>\<open>.y.npy\<close>,
  \<^verbatim>\<open>.z.npy\<close> and \<^verbatim>\<open>.sol.npy\<close>.
\<close>

definition slice_all :: "'a list \<Rightarrow> 'a list" where
  "slice_all xs = drop 0 (take (length xs) xs)"

definition saved_arrays ::
  "'f pynum list list
     \<Rightarrow> exn + ('f pynum list \<times> 'f pynum list \<times> 'f pynum list \<times> 'f pynum list)" where
  "saved_arrays nl =
     bind_err (list_get (slice_all nl) 1) (\<lambda>nodesx.
     bind_err (list_get (slice_all nl) 2) (\<lambda>nodesy.
     bind_err (list_get (slice_all nl) 3) (\<lambda>nodesz.
     bind_err (list_get (slice_all nl) 4) (\<lambda>nodesolution.
       Inr (nodesx, nodesy, nodesz, nodesolution)))))"

text \<open>
  The interchange export. \<^verbatim>\<open>cells_array = np.array(elements_list)[:,1:5] - 1\<close>: an empty
  list gives a one-dimensional array, on which the two-dimensional slice raises
  \<^verbatim>\<open>IndexError\<close>. \<^verbatim>\<open>solution_field_nodes = np.zeros(num_nodes)\<close> raises \<^verbatim>\<open>ValueError\<close>
  for a negative size. \<^verbatim>\<open>points = np.array(NodeCoords)\<close> keeps the rows of the reader's
  \<^verbatim>\<open>NodeCoords\<close>. The result holds the points, the connectivity of the one cell block and
  the point data named \<^verbatim>\<open>solution\<close>.
\<close>

definition cells_array :: "int list list \<Rightarrow> exn + int list list" where
  "cells_array el =
     (if el = [] then Inl IndexError
      else Inr (map (\<lambda>row. map (\<lambda>v. v - 1) (take 4 (drop 1 row))) el))"

fun solution_loop :: "'f field \<Rightarrow> nat list \<Rightarrow> 'f pynum list \<Rightarrow> exn + 'f pynum list" where
  "solution_loop sol [] arr = Inr arr"
| "solution_loop sol (i # is) arr =
     bind_err (list_set arr i (sol (int i + 1, 1))) (\<lambda>arr'. solution_loop sol is arr')"

definition solution_field_nodes :: "('f pynum) \<Rightarrow> int \<Rightarrow> 'f field \<Rightarrow> exn + 'f pynum list" where
  "solution_field_nodes zero num_nodes sol =
     (if num_nodes < 0 then Inl ValueError
      else solution_loop sol [0..<nat num_nodes] (replicate (nat num_nodes) zero))"

definition vtk_export ::
  "'f pynum \<Rightarrow> int \<Rightarrow> 'f pynum list list \<Rightarrow> int list list \<Rightarrow> 'f field
     \<Rightarrow> exn + ('f pynum list list \<times> int list list \<times> 'f pynum list)" where
  "vtk_export zero num_nodes NodeCoords el sol =
     (let points = NodeCoords in
      bind_err (cells_array el) (\<lambda>cells.
      bind_err (solution_field_nodes zero num_nodes sol) (\<lambda>solution.
        Inr (points, cells, solution))))"

text \<open>
  From a node file to the exported node file, as the notebook runs: the reader, the
  geometric field filled from its arrays, the node list, the lines written. The export
  takes \<^verbatim>\<open>num_nodes\<close> from \<^verbatim>\<open>nodes.NumberOfNodesGet()\<close>, the number the nodes were
  created with, and \<^verbatim>\<open>num_coords\<close> from the coordinate system, which has dimension 3.
\<close>

definition exported_node_file ::
  "(string \<Rightarrow> int option) \<Rightarrow> (string \<Rightarrow> 'f option) \<Rightarrow> ('f pynum \<Rightarrow> string)
     \<Rightarrow> (int \<Rightarrow> int) \<Rightarrow> int \<Rightarrow> 'f field \<Rightarrow> 'f field \<Rightarrow> string list \<Rightarrow> exn + string list" where
  "exported_node_file io fo rp owner rank g0 sol fh =
     bind_err (read_nodes io fo fh) (\<lambda>((num_nodes, num_coords, num_attributes, boundary_markers),
                                       NodeNums, NodeCoords).
     bind_err (set_geometry owner rank num_nodes NodeNums NodeCoords g0) (\<lambda>geo.
     bind_err (nodes_list num_nodes 3 geo sol) (\<lambda>nl.
       Inr (node_file_lines rp nl))))"

section \<open>Decimal instances of the conversions\<close>

text \<open>
  To evaluate the definitions on concrete files the three parameters are instantiated on
  plain decimal literals: an optional sign and digits for \<^verbatim>\<open>int\<close>, with an optional
  fraction for \<^verbatim>\<open>float\<close>. A float is then \<open>Dec m k\<close>, the number \<open>m / 10 ^ k\<close> with at least
  one fraction digit and no further trailing zero, and \<open>dec_repr\<close> prints it as Python
  prints such a float (\<^verbatim>\<open>0.0\<close>, \<^verbatim>\<open>1000.0\<close>, \<^verbatim>\<open>0.25\<close>).
\<close>

datatype dec = Dec int nat

definition digit_of :: "char \<Rightarrow> int option" where
  "digit_of c = (let n = (of_char c :: int) in if 48 \<le> n \<and> n \<le> 57 then Some (n - 48) else None)"

fun digits_acc :: "int \<Rightarrow> string \<Rightarrow> int option" where
  "digits_acc a [] = Some a"
| "digits_acc a (c # cs) =
     (case digit_of c of None \<Rightarrow> None | Some d \<Rightarrow> digits_acc (10 * a + d) cs)"

definition dec_nat :: "string \<Rightarrow> int option" where
  "dec_nat s = (if s = [] then None else digits_acc 0 s)"

definition unsign :: "string \<Rightarrow> int \<times> string" where
  "unsign s =
     (case s of
        [] \<Rightarrow> (1, [])
      | c # r \<Rightarrow> if c = CHR ''-'' then (- 1, r) else if c = CHR ''+'' then (1, r) else (1, s))"

definition dec_int :: "string \<Rightarrow> int option" where
  "dec_int s = (case unsign s of (sg, body) \<Rightarrow> map_option (\<lambda>n. sg * n) (dec_nat body))"

fun norm_dec :: "int \<Rightarrow> nat \<Rightarrow> dec" where
  "norm_dec m 0 = Dec (m * 10) 1"
| "norm_dec m (Suc 0) = Dec m 1"
| "norm_dec m (Suc (Suc k)) =
     (if m mod 10 = 0 then norm_dec (m div 10) (Suc k) else Dec m (Suc (Suc k)))"

definition dec_float :: "string \<Rightarrow> dec option" where
  "dec_float s =
     (case unsign s of (sg, body) \<Rightarrow>
        (let ip = takeWhile (\<lambda>c. c \<noteq> CHR ''.'') body;
             rest = dropWhile (\<lambda>c. c \<noteq> CHR ''.'') body
         in case rest of
              [] \<Rightarrow> map_option (\<lambda>a. norm_dec (sg * a) 0) (dec_nat ip)
            | _ # fp \<Rightarrow>
                (case (dec_nat ip, dec_nat fp) of
                   (Some a, Some b) \<Rightarrow>
                     Some (norm_dec (sg * (a * 10 ^ length fp + b)) (length fp))
                 | _ \<Rightarrow> None)))"

function str_nat :: "int \<Rightarrow> string" where
  "str_nat n =
     (if n < 10 then [char_of (48 + n)] else str_nat (n div 10) @ [char_of (48 + n mod 10)])"
  by pat_completeness auto
termination
  by (relation "measure nat") auto

declare str_nat.simps [simp del]

definition str_int :: "int \<Rightarrow> string" where
  "str_int i = (if i < 0 then ''-'' @ str_nat (- i) else str_nat i)"

definition frac_digits :: "nat \<Rightarrow> int \<Rightarrow> string" where
  "frac_digits k n = (let ds = str_nat n in replicate (k - length ds) (CHR ''0'') @ ds)"

definition dec_repr :: "dec pynum \<Rightarrow> string" where
  "dec_repr v =
     (case v of
        PInt i \<Rightarrow> str_int i
      | PFloat (Dec m k) \<Rightarrow>
          (if m < 0 then ''-'' else []) @ str_nat (\<bar>m\<bar> div 10 ^ k) @ ''.''
            @ frac_digits k (\<bar>m\<bar> mod 10 ^ k))"

section \<open>Two libraries for evaluation\<close>



section \<open>The record form of the specification\<close>

text \<open>
  The specification gives the form of an output line as
  \<^verbatim>\<open><node_id>,<x>,<y>,<z>,<solution_value>\<close> and
  \<^verbatim>\<open><element_id>,<node_1>,<node_2>,<node_3>,<node_4>\<close>: the fields separated by commas.
  \<open>spec_record_line\<close> follows these words, to be compared with the lines the notebook writes.
\<close>

fun spec_record_line :: "('a \<Rightarrow> string) \<Rightarrow> 'a list \<Rightarrow> string" where
  "spec_record_line rp [] = []"
| "spec_record_line rp [v] = rp v"
| "spec_record_line rp (v # w # vs) = rp v @ '','' @ spec_record_line rp (w # vs)"

section \<open>Properties of the node reader\<close>

subsection \<open>Exceptions and accepted lines\<close>

lemma bind_err_simps [simp]:
  "bind_err (Inl e) f = Inl e" "bind_err (Inr x) f = f x"
  by (simp_all add: bind_err_def)

lemma bind_err_Inr_iff: "bind_err m f = Inr y \<longleftrightarrow> (\<exists>x. m = Inr x \<and> f x = Inr y)"
  by (cases m) simp_all

lemma bind_err_Inl_iff: "bind_err m f = Inl e \<longleftrightarrow> m = Inl e \<or> (\<exists>x. m = Inr x \<and> f x = Inl e)"
  by (cases m) simp_all

lemma conv_Inl: "conv f t = Inl e \<Longrightarrow> e = ValueError"
  by (simp add: conv_def split: option.splits)

lemma split_ws_Nil [simp]: "split_ws [] = []"
  by (simp add: split_ws_def)

lemma node_line_not_four: "length (split_ws line) \<noteq> 4 \<Longrightarrow> node_line io fo d line = Inl ValueError"
  by (auto simp: node_line_def split: list.splits)

lemma node_line_low_dim:
  "length (split_ws line) = 4 \<Longrightarrow> d < 3 \<Longrightarrow> node_line io fo d line = Inl IndexError"
  by (auto simp: node_line_def list_set_def split: list.splits)

lemma node_line_Inr:
  "node_line io fo d line = Inr r \<Longrightarrow> length (split_ws line) = 4 \<and> 3 \<le> d"
  using node_line_not_four [of line io fo d] node_line_low_dim [of line d io fo]
  by (cases "length (split_ws line) = 4"; cases "d < 3") auto

lemma node_line_high_dim_Inl:
  "3 \<le> d \<Longrightarrow> node_line io fo d line = Inl e \<Longrightarrow> e = ValueError"
  by (auto simp: node_line_def list_set_def bind_err_Inl_iff dest: conv_Inl
        split: list.splits if_splits)

lemma node_line_Inl: "node_line io fo d line = Inl e \<Longrightarrow> e = ValueError \<or> e = IndexError"
  by (auto simp: node_line_def list_set_def bind_err_Inl_iff dest: conv_Inl split: list.splits if_splits)

lemma node_lines_short:
  "length fh < k \<Longrightarrow>
     \<exists>e. node_lines io fo d k fh = Inl e \<and> (e = ValueError \<or> e = IndexError) \<and> (3 \<le> d \<longrightarrow> e = ValueError)"
proof (induction k arbitrary: fh)
  case 0
  then show ?case by simp
next
  case (Suc k)
  show ?case
  proof (cases fh)
    case Nil
    then show ?thesis by (simp add: node_line_not_four)
  next
    case (Cons l ls)
    with Suc.prems have "length ls < k" by simp
    from Suc.IH [OF this] obtain e where
      e: "node_lines io fo d k ls = Inl e" "e = ValueError \<or> e = IndexError" "3 \<le> d \<longrightarrow> e = ValueError"
      by blast
    show ?thesis
    proof (cases "node_line io fo d l")
      case (Inl e')
      with node_line_Inl [OF Inl] node_line_high_dim_Inl [of d io fo l e'] Cons show ?thesis
        by auto
    next
      case (Inr r)
      with e Cons show ?thesis by (cases r) simp
    qed
  qed
qed


lemma node_lines_Inr:
  "node_lines io fo d k fh = Inr r \<Longrightarrow>
     k \<le> length fh \<and> (\<forall>l \<in> set (take k fh). length (split_ws l) = 4) \<and> (0 < k \<longrightarrow> 3 \<le> d)"
proof (induction k arbitrary: fh r)
  case 0
  then show ?case by simp
next
  case (Suc k)
  show ?case
  proof (cases fh)
    case Nil
    with Suc.prems show ?thesis by (simp add: node_line_not_four)
  next
    case (Cons l ls)
    with Suc.prems obtain r1 r2 where
      r1: "node_line io fo d l = Inr r1" and r2: "node_lines io fo d k ls = Inr r2"
      by (auto simp: bind_err_Inr_iff split: prod.splits)
    from node_line_Inr [OF r1] Suc.IH [OF r2] Cons show ?thesis by simp
  qed
qed

lemma read_nodes_Cons:
  "node_header io header = Inr (n, d, a, b) \<Longrightarrow>
     read_nodes io fo (header # rest) =
       bind_err (node_lines io fo d (nat n) rest) (\<lambda>(NodeNums, NodeCoords).
         Inr ((n, d, a, b), NodeNums, NodeCoords))"
  by (simp add: read_nodes_def)

subsection \<open>Truncated node files\<close>

text \<open>
  Claim C2, as the notebook implements it. When the header of a node file converts to
  \<open>(n, d, a, b)\<close> and fewer than \<open>n\<close> lines follow it, the read never returns a mesh: it
  ends with Python's \<^verbatim>\<open>ValueError\<close> or \<^verbatim>\<open>IndexError\<close>, and with \<^verbatim>\<open>ValueError\<close> whenever
  the declared dimension is at least 3 (the empty string that \<^verbatim>\<open>readline\<close> returns at the
  end of the file does not unpack into four names).
\<close>

theorem truncated_node_file_fails:
  assumes "node_header io header = Inr (n, d, a, b)" and "int (length rest) < n"
  shows "(read_nodes io fo (header # rest) = Inl ValueError
            \<or> read_nodes io fo (header # rest) = Inl IndexError)
         \<and> (3 \<le> d \<longrightarrow> read_nodes io fo (header # rest) = Inl ValueError)"
proof -
  from assms(2) have "length rest < nat n" by linarith
  from node_lines_short [OF this, of io fo d] obtain e where
    "node_lines io fo d (nat n) rest = Inl e" "e = ValueError \<or> e = IndexError"
    "3 \<le> d \<longrightarrow> e = ValueError"
    by blast
  then show ?thesis
    by (auto simp: read_nodes_Cons [OF assms(1)])
qed

theorem truncated_node_file_fails_witness:
  "read_nodes dec_int dec_float [''2 3 0 0'', ''1 0.0 0.0 0.0''] = Inl ValueError"
proof -
  have h: "node_header dec_int ''2 3 0 0'' = Inr (2, 3, 0, 0)" by code_simp
  have l: "int (length [''1 0.0 0.0 0.0'']) < 2" by simp
  from truncated_node_file_fails [OF h l, of dec_float] show ?thesis by simp
qed

text \<open>
  Claim C2 as stated fails: a header declaring 10 nodes over 9 data lines ends the read
  with \<^verbatim>\<open>ValueError\<close>, not with the specification's \<open>TruncatedFileError\<close>.
\<close>

theorem truncated_node_file_counterexample:
  "read_nodes dec_int dec_float
     [''10 3 0 0'', ''1 0.0 0.0 0.0'', ''2 1.0 0.0 0.0'', ''3 0.0 1.0 0.0'', ''4 0.0 0.0 1.0'',
      ''5 1.0 1.0 0.0'', ''6 1.0 0.0 1.0'', ''7 0.0 1.0 1.0'', ''8 1.0 1.0 1.0'',
      ''9 0.5 0.5 0.5''] = Inl ValueError
   \<and> read_nodes dec_int dec_float
     [''10 3 0 0'', ''1 0.0 0.0 0.0'', ''2 1.0 0.0 0.0'', ''3 0.0 1.0 0.0'', ''4 0.0 0.0 1.0'',
      ''5 1.0 1.0 0.0'', ''6 1.0 0.0 1.0'', ''7 0.0 1.0 1.0'', ''8 1.0 1.0 1.0'',
      ''9 0.5 0.5 0.5''] \<noteq> Inl TruncatedFileError"
  by code_simp

subsection \<open>Tokens per entity line\<close>




subsection \<open>Declared dimension below three\<close>

text \<open>
  Claim C10, as the notebook implements it. When the header declares a coordinate dimension
  below 3 (so also dimension 2) and at least one node, the read fails at the first entity
  line: with \<^verbatim>\<open>IndexError\<close> when that line has exactly four tokens (the third coordinate
  has no slot in a row of the declared size), and with the \<^verbatim>\<open>ValueError\<close> of the unpacking
  otherwise. When the header declares no node, no entity line is read and the read
  succeeds with empty arrays.
\<close>

theorem low_dimension_read:
  assumes "node_header io header = Inr (n, d, a, b)" and "d < 3"
  shows "(0 < n \<longrightarrow>
            read_nodes io fo (header # rest) =
              (if length (split_ws (fst (readline rest))) = 4 then Inl IndexError
               else Inl ValueError))
         \<and> (n \<le> 0 \<longrightarrow> read_nodes io fo (header # rest) = Inr ((n, d, a, b), [], []))"
proof (intro conjI impI)
  assume "0 < n"
  then obtain k where k: "nat n = Suc k" by (cases "nat n") auto
  obtain line fh' where rl: "readline rest = (line, fh')" by (cases "readline rest")
  have "node_line io fo d line =
          (if length (split_ws line) = 4 then Inl IndexError else Inl ValueError)"
    using node_line_not_four [of line io fo d] node_line_low_dim [OF _ assms(2), of line io fo]
    by simp
  with rl k show "read_nodes io fo (header # rest) =
      (if length (split_ws (fst (readline rest))) = 4 then Inl IndexError else Inl ValueError)"
    by (simp add: read_nodes_Cons [OF assms(1)])
next
  assume "n \<le> 0"
  then have "nat n = 0" by simp
  then show "read_nodes io fo (header # rest) = Inr ((n, d, a, b), [], [])"
    by (simp add: read_nodes_Cons [OF assms(1)])
qed

theorem low_dimension_read_witness:
  "read_nodes dec_int dec_float [''1 2 0 0'', ''1 0.0 0.5 1.0''] = Inl IndexError
   \<and> read_nodes dec_int dec_float [''0 2 0 0'', ''1 0.0 0.5 1.0''] = Inr ((0, 2, 0, 0), [], [])"
proof -
  have h1: "node_header dec_int ''1 2 0 0'' = Inr (1, 2, 0, 0)" by code_simp
  have h0: "node_header dec_int ''0 2 0 0'' = Inr (0, 2, 0, 0)" by code_simp
  have d: "(2::int) < 3" by simp
  have t: "length (split_ws (fst (readline [''1 0.0 0.5 1.0'']))) = 4" by code_simp
  from low_dimension_read [OF h1 d, of dec_float "[''1 0.0 0.5 1.0'']"] t
    low_dimension_read [OF h0 d, of dec_float "[''1 0.0 0.5 1.0'']"]
  show ?thesis by simp
qed

text \<open>
  Claim C10 as stated fails: a two-dimensional node file whose lines hold a node id and
  two coordinates ends the read with \<^verbatim>\<open>ValueError\<close>, not with an index error.
\<close>

theorem two_dimensional_file_counterexample:
  "read_nodes dec_int dec_float [''2 2 0 0'', ''1 0.0 0.0'', ''2 1.0 0.5''] = Inl ValueError
   \<and> read_nodes dec_int dec_float [''2 2 0 0'', ''1 0.0 0.0'', ''2 1.0 0.5''] \<noteq> Inl IndexError"
  by code_simp

section \<open>Properties of the export\<close>

subsection \<open>The filling loops\<close>

lemma take_Suc_update:
  "k < length xs \<Longrightarrow> take (Suc k) (xs[k := v]) = take k xs @ [v]"
  by (simp add: take_Suc_conv_app_nth)

lemma nodes_loop_upt:
  "k \<le> n \<Longrightarrow> length xs = n \<Longrightarrow>
     nodes_loop geo sol [k..<n] xs =
       Inr (take k xs @ map (\<lambda>i. node_record geo sol (int i + 1)) [k..<n])"
proof (induction "n - k" arbitrary: k xs)
  case 0
  then show ?case by simp
next
  case (Suc m)
  then have lt: "k < n" and m: "m = n - Suc k" by simp_all
  have len: "length (xs[k := node_record geo sol (int k + 1)]) = n"
    using Suc.prems by simp
  from lt have "Suc k \<le> n" by simp
  from Suc.hyps(1) [OF m this len] lt Suc.prems(2) show ?case
    by (simp add: upt_conv_Cons list_set_def take_Suc_update)
qed

lemma nodes_list_eq:
  "nodes_list n d geo sol = Inr (map (\<lambda>i. node_record geo sol (int i + 1)) [0..<nat n])"
  by (simp add: nodes_list_def nodes_loop_upt)

lemma elements_loop_upt:
  "k \<le> n \<Longrightarrow> length xs = n \<Longrightarrow>
     elements_loop ng [k..<n] xs =
       Inr (take k xs @ map (\<lambda>j. elem_record ng (int j + 1)) [k..<n])"
proof (induction "n - k" arbitrary: k xs)
  case 0
  then show ?case by simp
next
  case (Suc m)
  then have lt: "k < n" and m: "m = n - Suc k" by simp_all
  have len: "length (xs[k := elem_record ng (int k + 1)]) = n"
    using Suc.prems by simp
  from lt have "Suc k \<le> n" by simp
  from Suc.hyps(1) [OF m this len] lt Suc.prems(2) show ?case
    by (simp add: upt_conv_Cons list_set_def take_Suc_update)
qed

lemma elements_list_eq:
  "elements_list m ng = Inr (map (\<lambda>j. elem_record ng (int j + 1)) [0..<nat m])"
  by (simp add: elements_list_def elements_loop_upt)

lemma solution_loop_upt:
  "k \<le> n \<Longrightarrow> length xs = n \<Longrightarrow>
     solution_loop sol [k..<n] xs = Inr (take k xs @ map (\<lambda>i. sol (int i + 1, 1)) [k..<n])"
proof (induction "n - k" arbitrary: k xs)
  case 0
  then show ?case by simp
next
  case (Suc m)
  then have lt: "k < n" and m: "m = n - Suc k" by simp_all
  have len: "length (xs[k := sol (int k + 1, 1)]) = n"
    using Suc.prems by simp
  from lt have "Suc k \<le> n" by simp
  from Suc.hyps(1) [OF m this len] lt Suc.prems(2) show ?case
    by (simp add: upt_conv_Cons list_set_def take_Suc_update)
qed

lemma solution_field_nodes_eq:
  "0 \<le> n \<Longrightarrow> solution_field_nodes z n sol = Inr (map (\<lambda>i. sol (int i + 1, 1)) [0..<nat n])"
  by (simp add: solution_field_nodes_def solution_loop_upt)

subsection \<open>Node and element records\<close>

lemma py_str_list_five:
  "py_str_list rp [v0, v1, v2, v3, v4] =
     ''['' @ rp v0 @ '', '' @ rp v1 @ '', '' @ rp v2 @ '', '' @ rp v3 @ '', '' @ rp v4 @ '']''"
  by (simp add: py_str_list_def)

text \<open>
  Claim C7, as the notebook implements it. The node export builds exactly one record per
  node, for the node ids \<open>1, 2, ..., num_nodes\<close> in increasing order, each record holding
  the node id, the three coordinates read from the geometric field and the value of the
  solution field, in this order, and writes one line per record; the element export
  likewise builds one record per element, holding the element id and its four node ids,
  and writes one line per record. The line written for a record is \<^verbatim>\<open>str\<close> of the
  Python list: the five fields in the order of the record, separated by a comma and a
  space, between square brackets.
\<close>

theorem export_records:
  "nodes_list n d geo sol =
     Inr (map (\<lambda>i. [PInt (int i + 1), geo (int i + 1, 1), geo (int i + 1, 2),
                     geo (int i + 1, 3), sol (int i + 1, 1)]) [0..<nat n])
   \<and> map_sum id (node_file_lines rp) (nodes_list n d geo sol) =
     Inr (map (\<lambda>i. ''['' @ rp (PInt (int i + 1)) @ '', '' @ rp (geo (int i + 1, 1)) @ '', ''
                     @ rp (geo (int i + 1, 2)) @ '', '' @ rp (geo (int i + 1, 3)) @ '', ''
                     @ rp (sol (int i + 1, 1)) @ '']'') [0..<nat n])
   \<and> elements_list m ng =
     Inr (map (\<lambda>j. [int j + 1, ng (int j + 1) 0, ng (int j + 1) 1, ng (int j + 1) 2,
                     ng (int j + 1) 3]) [0..<nat m])
   \<and> map_sum id (elem_file_lines rp) (elements_list m ng) =
     Inr (map (\<lambda>j. ''['' @ rp (PInt (int j + 1)) @ '', '' @ rp (PInt (ng (int j + 1) 0)) @ '', ''
                     @ rp (PInt (ng (int j + 1) 1)) @ '', '' @ rp (PInt (ng (int j + 1) 2)) @ '', ''
                     @ rp (PInt (ng (int j + 1) 3)) @ '']'') [0..<nat m])"
proof -
  have "map_sum id (node_file_lines rp) (nodes_list n d geo sol) =
     Inr (map (\<lambda>i. ''['' @ rp (PInt (int i + 1)) @ '', '' @ rp (geo (int i + 1, 1)) @ '', ''
                     @ rp (geo (int i + 1, 2)) @ '', '' @ rp (geo (int i + 1, 3)) @ '', ''
                     @ rp (sol (int i + 1, 1)) @ '']'') [0..<nat n])"
    by (simp only: nodes_list_eq node_file_lines_def node_record_def map_sum.simps id_apply
          map_map o_def py_str_list_five)
  moreover have "map_sum id (elem_file_lines rp) (elements_list m ng) =
     Inr (map (\<lambda>j. ''['' @ rp (PInt (int j + 1)) @ '', '' @ rp (PInt (ng (int j + 1) 0)) @ '', ''
                     @ rp (PInt (ng (int j + 1) 1)) @ '', '' @ rp (PInt (ng (int j + 1) 2)) @ '', ''
                     @ rp (PInt (ng (int j + 1) 3)) @ '']'') [0..<nat m])"
    by (simp only: elements_list_eq elem_file_lines_def elem_record_def map_sum.simps id_apply
          map_map o_def py_str_list_five)
  ultimately show ?thesis
    by (simp add: nodes_list_eq elements_list_eq node_record_def elem_record_def)
qed

theorem export_records_witness:
  "map_sum id (node_file_lines dec_repr)
     (nodes_list 2 3 (\<lambda>(node, c). PFloat (Dec (node * 10 + int c) 1)) (\<lambda>key. PFloat (Dec 10000 1))) =
     Inr [''[1, 1.1, 1.2, 1.3, 1000.0]'', ''[2, 2.1, 2.2, 2.3, 1000.0]'']
   \<and> map_sum id (elem_file_lines dec_repr) (elements_list 1 (\<lambda>e k. 4 - int k)) =
     Inr [''[1, 4, 3, 2, 1]'']"
proof -
  let ?geo = "\<lambda>(node, c). PFloat (Dec (node * 10 + int c) 1)"
  let ?sol = "\<lambda>key :: int \<times> nat. PFloat (Dec 10000 1)"
  let ?ng = "\<lambda>(e :: int) (k :: nat). 4 - int k"
  have n: "map (\<lambda>i. ''['' @ dec_repr (PInt (int i + 1)) @ '', '' @ dec_repr (?geo (int i + 1, 1)) @ '', ''
                     @ dec_repr (?geo (int i + 1, 2)) @ '', '' @ dec_repr (?geo (int i + 1, 3)) @ '', ''
                     @ dec_repr (?sol (int i + 1, 1)) @ '']'') [0..<nat 2] =
      [''[1, 1.1, 1.2, 1.3, 1000.0]'', ''[2, 2.1, 2.2, 2.3, 1000.0]'']"
    by code_simp
  have e: "map (\<lambda>j. ''['' @ dec_repr (PInt (int j + 1)) @ '', '' @ dec_repr (PInt (?ng (int j + 1) 0)) @ '', ''
                     @ dec_repr (PInt (?ng (int j + 1) 1)) @ '', '' @ dec_repr (PInt (?ng (int j + 1) 2)) @ '', ''
                     @ dec_repr (PInt (?ng (int j + 1) 3)) @ '']'') [0..<nat 1] =
      [''[1, 4, 3, 2, 1]'']"
    by code_simp
  from export_records [of 2 3 ?geo ?sol dec_repr 1 ?ng] show ?thesis
    unfolding n e by blast
qed

text \<open>
  Claim C7 as stated fails in the form of the records: for one node and one element the
  lines written are \<^verbatim>\<open>[1, 0.0, 0.0, 0.0, 1000.0]\<close> and \<^verbatim>\<open>[1, 1, 2, 3, 4]\<close>, not the
  comma-separated lines \<^verbatim>\<open>1,0.0,0.0,0.0,1000.0\<close> and \<^verbatim>\<open>1,1,2,3,4\<close> of the form the
  specification gives.
\<close>

theorem record_form_counterexample:
  "map_sum id (node_file_lines dec_repr)
     (nodes_list 1 3 (\<lambda>key. PFloat (Dec 0 1)) (\<lambda>key. PFloat (Dec 10000 1))) =
     Inr [''[1, 0.0, 0.0, 0.0, 1000.0]'']
   \<and> map_sum id (map (spec_record_line dec_repr))
     (nodes_list 1 3 (\<lambda>key. PFloat (Dec 0 1)) (\<lambda>key. PFloat (Dec 10000 1))) =
     Inr [''1,0.0,0.0,0.0,1000.0'']
   \<and> map_sum id (elem_file_lines dec_repr) (elements_list 1 (\<lambda>e k. int k + 1)) =
     Inr [''[1, 1, 2, 3, 4]'']
   \<and> map_sum id (map (spec_record_line (\<lambda>v. dec_repr (PInt v)))) (elements_list 1 (\<lambda>e k. int k + 1)) =
     Inr [''1,1,2,3,4'']
   \<and> ''[1, 0.0, 0.0, 0.0, 1000.0]'' \<noteq> ''1,0.0,0.0,0.0,1000.0''
   \<and> ''[1, 1, 2, 3, 4]'' \<noteq> ''1,1,2,3,4''"
  by code_simp

subsection \<open>The array export\<close>

text \<open>
  Claim C9. With at least five nodes, the four saved arrays are whole records: the array
  saved as the x coordinates is the record \<open>[node id, x, y, z, solution]\<close> of node 2, and
  the arrays saved as the y coordinates, the z coordinates and the solution are the records
  of the nodes 3, 4 and 5.
\<close>

theorem saved_arrays_are_records:
  assumes "5 \<le> n"
  shows "bind_err (nodes_list n d geo sol) saved_arrays =
           Inr ([PInt 2, geo (2, 1), geo (2, 2), geo (2, 3), sol (2, 1)],
                [PInt 3, geo (3, 1), geo (3, 2), geo (3, 3), sol (3, 1)],
                [PInt 4, geo (4, 1), geo (4, 2), geo (4, 3), sol (4, 1)],
                [PInt 5, geo (5, 1), geo (5, 2), geo (5, 3), sol (5, 1)])"
proof -
  from assms have "4 < nat n" by simp
  then show ?thesis
    by (simp add: nodes_list_eq saved_arrays_def slice_all_def list_get_def node_record_def)
qed

theorem saved_arrays_are_records_witness:
  "bind_err (nodes_list 5 3 (\<lambda>(node, c). PFloat (Dec (node * 10 + int c) 1))
       (\<lambda>_. PFloat (Dec 10000 1))) saved_arrays =
     Inr ([PInt 2, PFloat (Dec 21 1), PFloat (Dec 22 1), PFloat (Dec 23 1), PFloat (Dec 10000 1)],
          [PInt 3, PFloat (Dec 31 1), PFloat (Dec 32 1), PFloat (Dec 33 1), PFloat (Dec 10000 1)],
          [PInt 4, PFloat (Dec 41 1), PFloat (Dec 42 1), PFloat (Dec 43 1), PFloat (Dec 10000 1)],
          [PInt 5, PFloat (Dec 51 1), PFloat (Dec 52 1), PFloat (Dec 53 1), PFloat (Dec 10000 1)])"
proof -
  have h: "(5::int) \<le> 5" by simp
  from saved_arrays_are_records [OF h, of 3 "\<lambda>(node, c). PFloat (Dec (node * 10 + int c) 1)"
      "\<lambda>_. PFloat (Dec 10000 1)"]
  show ?thesis by simp
qed

subsection \<open>Reading the exported files back\<close>

lemma tokens_append_space:
  "is_space c \<Longrightarrow> tokens cur (xs @ c # ys) = tokens cur xs @ tokens [] ys"
  by (induction xs arbitrary: cur) simp_all

lemma tokens_nonempty:
  "cur \<noteq> [] \<or> (\<exists>c \<in> set xs. \<not> is_space c) \<Longrightarrow> tokens cur xs \<noteq> []"
  by (induction xs arbitrary: cur) auto

lemma split_ws_nonempty: "c \<in> set xs \<Longrightarrow> \<not> is_space c \<Longrightarrow> 1 \<le> length (split_ws xs)"
  using tokens_nonempty [of "[]" xs] by (cases "tokens [] xs") (auto simp: split_ws_def)

lemma split_ws_append_space:
  "is_space c \<Longrightarrow> split_ws (xs @ c # ys) = split_ws xs @ split_ws ys"
  by (simp add: split_ws_def tokens_append_space)

lemma is_space_blank: "is_space CHR '' ''"
  by (simp add: is_space_def)

lemma record_line_tokens:
  "5 \<le> length (split_ws (py_str_list rp [v0, v1, v2, v3, v4]))"
proof -
  let ?p0 = "''['' @ rp v0 @ '',''" and ?p1 = "rp v1 @ '',''" and ?p2 = "rp v2 @ '',''"
  let ?p3 = "rp v3 @ '',''" and ?p4 = "rp v4 @ '']''"
  have eq: "py_str_list rp [v0, v1, v2, v3, v4] =
      ?p0 @ CHR '' '' # ?p1 @ CHR '' '' # ?p2 @ CHR '' '' # ?p3 @ CHR '' '' # ?p4"
    by (simp add: py_str_list_def)
  have "1 \<le> length (split_ws ?p0)"
    by (rule split_ws_nonempty [of "CHR ''[''"]) (simp_all add: is_space_def)
  moreover have "1 \<le> length (split_ws ?p1)"
    by (rule split_ws_nonempty [of "CHR '',''"]) (simp_all add: is_space_def)
  moreover have "1 \<le> length (split_ws ?p2)"
    by (rule split_ws_nonempty [of "CHR '',''"]) (simp_all add: is_space_def)
  moreover have "1 \<le> length (split_ws ?p3)"
    by (rule split_ws_nonempty [of "CHR '',''"]) (simp_all add: is_space_def)
  moreover have "1 \<le> length (split_ws ?p4)"
    by (rule split_ws_nonempty [of "CHR '']''"]) (simp_all add: is_space_def)
  ultimately show ?thesis
    unfolding eq by (simp only: split_ws_append_space [OF is_space_blank] length_append)
qed

lemma node_header_not_four: "length (split_ws line) \<noteq> 4 \<Longrightarrow> node_header io line = Inl ValueError"
  by (auto simp: node_header_def split: list.splits)

lemma elem_header_not_three: "length (split_ws line) \<noteq> 3 \<Longrightarrow> elem_header io line = Inl ValueError"
  by (auto simp: elem_header_def split: list.splits)

lemma read_nodes_bad_header:
  "length (split_ws (fst (readline fh))) \<noteq> 4 \<Longrightarrow> read_nodes io fo fh = Inl ValueError"
  by (cases "readline fh") (simp add: read_nodes_def node_header_not_four)

lemma read_elems_bad_header:
  "length (split_ws (fst (readline fh))) \<noteq> 3 \<Longrightarrow> read_elems io fh = Inl ValueError"
  by (cases "readline fh") (simp add: read_elems_def elem_header_not_three)

lemma first_line_of_records:
  "length (split_ws (fst (readline (map (\<lambda>i. py_str_list rp [a i, b i, c i, d i, e i]) [0..<k])))) \<noteq> 4
   \<and> length (split_ws (fst (readline (map (\<lambda>i. py_str_list rp [a i, b i, c i, d i, e i]) [0..<k])))) \<noteq> 3"
proof (cases k)
  case 0
  then show ?thesis by simp
next
  case (Suc k')
  then have "[0..<k] = 0 # [1..<k]" by (simp add: upt_conv_Cons)
  with record_line_tokens [of rp "a 0" "b 0" "c 0" "d 0" "e 0"] show ?thesis by simp
qed

text \<open>
  Claim C1, as the notebook implements it. The exported files are not in the format the
  reader expects: they have no header line, and every line is a bracketed Python list of
  five entries. Whatever mesh was exported, reading the exported node file with the node
  reader and the exported element file with the element reader ends with \<^verbatim>\<open>ValueError\<close> at
  the first line, which splits into at least five tokens (or into none, when there is no
  node or no element) where the header unpacking needs four or three.
\<close>

theorem exported_files_are_not_readable:
  "bind_err (nodes_list n d geo sol) (\<lambda>nl. read_nodes io fo (node_file_lines rp nl)) = Inl ValueError
   \<and> bind_err (elements_list m ng) (\<lambda>el. read_elems io (elem_file_lines rp el)) = Inl ValueError"
proof
  show "bind_err (nodes_list n d geo sol) (\<lambda>nl. read_nodes io fo (node_file_lines rp nl)) = Inl ValueError"
    using first_line_of_records [of rp "\<lambda>i. PInt (int i + 1)" "\<lambda>i. geo (int i + 1, 1)"
      "\<lambda>i. geo (int i + 1, 2)" "\<lambda>i. geo (int i + 1, 3)" "\<lambda>i. sol (int i + 1, 1)" "nat n"]
    by (simp add: nodes_list_eq node_file_lines_def node_record_def read_nodes_bad_header o_def)
  show "bind_err (elements_list m ng) (\<lambda>el. read_elems io (elem_file_lines rp el)) = Inl ValueError"
    using first_line_of_records [of "\<lambda>v. rp (PInt v)" "\<lambda>j. int j + 1" "\<lambda>j. ng (int j + 1) 0"
      "\<lambda>j. ng (int j + 1) 1" "\<lambda>j. ng (int j + 1) 2" "\<lambda>j. ng (int j + 1) 3" "nat m"]
    by (simp add: elements_list_eq elem_file_lines_def elem_record_def read_elems_bad_header o_def)
qed

text \<open>
  Claim C1 as stated fails: a two-node file is read, its node list is exported, and reading
  the exported lines again does not give the mesh back but \<^verbatim>\<open>ValueError\<close>.
\<close>

theorem roundtrip_counterexample:
  "read_nodes dec_int dec_float [''2 3 0 0'', ''1 0.0 0.0 0.0'', ''2 1.0 0.5 0.25''] =
     Inr ((2, 3, 0, 0), [[1, 0], [2, 0]],
          [[PFloat (Dec 0 1), PFloat (Dec 0 1), PFloat (Dec 0 1)],
           [PFloat (Dec 10 1), PFloat (Dec 5 1), PFloat (Dec 25 2)]])
   \<and> exported_node_file dec_int dec_float dec_repr (\<lambda>node. 0) 0 (\<lambda>key. PFloat (Dec 0 1))
       (\<lambda>key. PFloat (Dec 10000 1)) [''2 3 0 0'', ''1 0.0 0.0 0.0'', ''2 1.0 0.5 0.25''] =
     Inr [''[1, 0.0, 0.0, 0.0, 1000.0]'', ''[2, 1.0, 0.5, 0.25, 1000.0]'']
   \<and> read_nodes dec_int dec_float [''[1, 0.0, 0.0, 0.0, 1000.0]'', ''[2, 1.0, 0.5, 0.25, 1000.0]''] =
     Inl ValueError"
  by code_simp

section \<open>Properties of the element loading\<close>

subsection \<open>The element file and the library calls\<close>














subsection \<open>Node references\<close>




subsection \<open>Node order\<close>




section \<open>Properties of the interchange export\<close>

lemma node_line_shape:
  "node_line io fo d line = Inr (nn, nc) \<Longrightarrow> (\<exists>node. nn = [node, 0]) \<and> 3 \<le> length nc"
  by (auto simp: node_line_def list_set_def bind_err_Inr_iff split: list.splits if_splits)

lemma node_lines_shape:
  "node_lines io fo d k fh = Inr (NN, NC) \<Longrightarrow>
     length NN = k \<and> length NC = k \<and> (\<forall>i < k. NN ! i \<noteq> [] \<and> 3 \<le> length (NC ! i))"
proof (induction k arbitrary: fh NN NC)
  case 0
  then show ?case by simp
next
  case (Suc k)
  obtain line fh' where rl: "readline fh = (line, fh')" by (cases "readline fh")
  with Suc.prems obtain nn nc NN' NC' where
    p: "node_line io fo d line = Inr (nn, nc)" "node_lines io fo d k fh' = Inr (NN', NC')"
      "NN = nn # NN'" "NC = nc # NC'"
    by (auto simp: bind_err_Inr_iff)
  from Suc.IH [OF p(2)] node_line_shape [OF p(1)] p(3,4) show ?case
    by (auto simp: nth_Cons split: nat.splits)
qed

lemma geometry_pass:
  assumes "i < length NN" "i < length NC" "NN ! i \<noteq> []" "NN ! i ! 0 = node"
    "owner node = rank" "3 \<le> length (NC ! i)"
  shows "geometry_loop owner rank NN NC (i # is) g =
           geometry_loop owner rank NN NC is
             (g((node, 1) := NC ! i ! 0, (node, 2) := NC ! i ! 1, (node, 3) := NC ! i ! 2))"
proof -
  from assms(6) have "0 < length (NC ! i)" "1 < length (NC ! i)" "2 < length (NC ! i)"
    by auto
  with assms show ?thesis
    by (simp add: list_get_def)
qed

lemma geometry_loop_ordered:
  assumes "\<forall>i \<in> set is. i < length NN \<and> i < length NC \<and> NN ! i \<noteq> [] \<and> NN ! i ! 0 = int i + 1
             \<and> owner (int i + 1) = rank \<and> 3 \<le> length (NC ! i)"
    and "distinct is"
  shows "\<exists>g'. geometry_loop owner rank NN NC is g = Inr g'
           \<and> (\<forall>i \<in> set is. g' (int i + 1, 1) = NC ! i ! 0 \<and> g' (int i + 1, 2) = NC ! i ! 1
                  \<and> g' (int i + 1, 3) = NC ! i ! 2)
           \<and> (\<forall>node c. (\<forall>i \<in> set is. node \<noteq> int i + 1) \<longrightarrow> g' (node, c) = g (node, c))"
  using assms
proof (induction "is" arbitrary: g)
  case Nil
  then show ?case by simp
next
  case (Cons i "is")
  let ?g = "g((int i + 1, 1) := NC ! i ! 0, (int i + 1, 2) := NC ! i ! 1, (int i + 1, 3) := NC ! i ! 2)"
  from Cons.prems have i: "i < length NN" "i < length NC" "NN ! i \<noteq> []" "NN ! i ! 0 = int i + 1"
    "owner (int i + 1) = rank" "3 \<le> length (NC ! i)"
    and rest: "\<forall>i \<in> set is. i < length NN \<and> i < length NC \<and> NN ! i \<noteq> [] \<and> NN ! i ! 0 = int i + 1
             \<and> owner (int i + 1) = rank \<and> 3 \<le> length (NC ! i)"
    and d: "distinct is" and fresh: "i \<notin> set is"
    by simp_all
  from Cons.IH [OF rest d, of ?g] obtain g' where
    g': "geometry_loop owner rank NN NC is ?g = Inr g'"
      "\<forall>j \<in> set is. g' (int j + 1, 1) = NC ! j ! 0 \<and> g' (int j + 1, 2) = NC ! j ! 1
                  \<and> g' (int j + 1, 3) = NC ! j ! 2"
      "\<forall>node c. (\<forall>j \<in> set is. node \<noteq> int j + 1) \<longrightarrow> g' (node, c) = ?g (node, c)"
    by blast
  from fresh have nf: "\<forall>j \<in> set is. int i + 1 \<noteq> int j + 1" by auto
  have run: "geometry_loop owner rank NN NC (i # is) g = Inr g'"
    using geometry_pass [of i NN NC "int i + 1" owner rank "is" g] i g'(1) by simp
  have here: "g' (int i + 1, 1) = NC ! i ! 0 \<and> g' (int i + 1, 2) = NC ! i ! 1
                \<and> g' (int i + 1, 3) = NC ! i ! 2"
    using g'(3) nf by simp
  have frame: "\<forall>node c. (\<forall>j \<in> set (i # is). node \<noteq> int j + 1) \<longrightarrow> g' (node, c) = g (node, c)"
    using g'(3) by simp
  from run here g'(2) frame show ?case by auto
qed

lemma take_three: "3 \<le> length r \<Longrightarrow> take 3 r = [r ! 0, r ! 1, r ! 2]"
  by (cases r; cases "tl r"; cases "tl (tl r)") auto

lemma node_line_InrD:
  "node_line io fo d l = Inr (nn, nc) \<Longrightarrow>
     \<exists>t0 t1 t2 t3 node x y z.
       split_ws l = [t0, t1, t2, t3] \<and> io t0 = Some node \<and> fo t1 = Some x \<and> fo t2 = Some y
       \<and> fo t3 = Some z \<and> nn = [node, 0] \<and> take 3 nc = [PFloat x, PFloat y, PFloat z]"
proof -
  assume ok: "node_line io fo d l = Inr (nn, nc)"
  from node_line_Inr [OF ok] have d: "3 \<le> d" and len: "length (split_ws l) = 4" by simp_all
  from len obtain t0 t1 t2 t3 where t: "split_ws l = [t0, t1, t2, t3]"
    by (auto simp: length_Suc_conv eval_nat_numeral)
  from d obtain j where j: "nat d = Suc (Suc (Suc j))"
    by (cases "nat d"; cases "nat d - 1"; cases "nat d - 2") auto
  from ok t j show ?thesis
    by (auto simp: node_line_def list_set_def conv_def bind_err_Inr_iff split: option.splits)
qed

lemma node_lines_rows:
  "node_lines io fo d k fh = Inr (NN, NC) \<Longrightarrow>
     \<forall>i < k. node_line io fo d (fh ! i) = Inr (NN ! i, NC ! i)"
proof (induction k arbitrary: fh NN NC)
  case 0
  then show ?case by simp
next
  case (Suc k)
  from node_lines_Inr [OF Suc.prems] obtain l ls where fh: "fh = l # ls" by (cases fh) auto
  with Suc.prems obtain nn nc NN' NC' where
    p: "node_line io fo d l = Inr (nn, nc)" "node_lines io fo d k ls = Inr (NN', NC')"
      "NN = nn # NN'" "NC = nc # NC'"
    by (auto simp: bind_err_Inr_iff)
  from Suc.IH [OF p(2)] p(1,3,4) fh show ?case
    by (auto simp: nth_Cons split: nat.splits)
qed

text \<open>
  Claim C6, as the notebook implements it, for a mesh that was read with at least one
  element. The connectivity entry for element \<open>j + 1\<close> and local node \<open>k\<close> is the node id
  returned by \<^verbatim>\<open>NodesGet\<close> minus 1, and row \<open>i\<close> of the point data \<^verbatim>\<open>solution\<close> is the
  solution value of node \<open>i + 1\<close>. The points array is \<^verbatim>\<open>NodeCoords\<close>: its row \<open>i\<close> holds the
  three coordinates converted from entity line \<open>i\<close> of the node file, whatever node id
  \<^verbatim>\<open>NodeNums[i][0]\<close> that line carries. When the node file lists the ids \<open>1, ..., n\<close> in this
  order and every node belongs to the computational node that runs the notebook, the
  geometric field holds for node \<open>i + 1\<close> the coordinates of row \<open>i\<close>, so the three arrays
  stand for the same nodes.
\<close>

theorem vtk_export_alignment:
  assumes "read_nodes io fo (header # rest) = Inr ((n, d, a, b), NodeNums, NodeCoords)"
    and "0 \<le> n" and "0 < m"
  shows "bind_err (elements_list m ng) (\<lambda>el. vtk_export z n NodeCoords el sol) =
           Inr (NodeCoords,
                map (\<lambda>j. [ng (int j + 1) 0 - 1, ng (int j + 1) 1 - 1, ng (int j + 1) 2 - 1,
                           ng (int j + 1) 3 - 1]) [0..<nat m],
                map (\<lambda>i. sol (int i + 1, 1)) [0..<nat n])
         \<and> length NodeCoords = nat n
         \<and> (\<forall>i < nat n. \<exists>t0 t1 t2 t3 x y z.
                split_ws (rest ! i) = [t0, t1, t2, t3] \<and> io t0 = Some (NodeNums ! i ! 0)
                \<and> fo t1 = Some x \<and> fo t2 = Some y \<and> fo t3 = Some z
                \<and> take 3 (NodeCoords ! i) = [PFloat x, PFloat y, PFloat z])
         \<and> ((\<forall>i < nat n. NodeNums ! i ! 0 = int i + 1) \<and> (\<forall>i < nat n. owner (int i + 1) = rank) \<longrightarrow>
              map_sum id (\<lambda>geo. map (\<lambda>i. [geo (int i + 1, 1), geo (int i + 1, 2), geo (int i + 1, 3)])
                                   [0..<nat n])
                (set_geometry owner rank n NodeNums NodeCoords g0) =
              Inr (map (take 3) NodeCoords))"
proof (intro conjI impI)
  from assms(3) have "[0..<nat m] \<noteq> []" by simp
  then show "bind_err (elements_list m ng) (\<lambda>el. vtk_export z n NodeCoords el sol) =
           Inr (NodeCoords,
                map (\<lambda>j. [ng (int j + 1) 0 - 1, ng (int j + 1) 1 - 1, ng (int j + 1) 2 - 1,
                           ng (int j + 1) 3 - 1]) [0..<nat m],
                map (\<lambda>i. sol (int i + 1, 1)) [0..<nat n])"
    using assms(2)
    by (simp add: elements_list_eq vtk_export_def cells_array_def solution_field_nodes_eq
          elem_record_def o_def)
next
  from assms(1) have nl: "node_lines io fo d (nat n) rest = Inr (NodeNums, NodeCoords)"
    by (auto simp: read_nodes_def bind_err_Inr_iff)
  from node_lines_shape [OF nl] show "length NodeCoords = nat n" by simp
next
  from assms(1) have nl: "node_lines io fo d (nat n) rest = Inr (NodeNums, NodeCoords)"
    by (auto simp: read_nodes_def bind_err_Inr_iff)
  show "\<forall>i < nat n. \<exists>t0 t1 t2 t3 x y z.
                split_ws (rest ! i) = [t0, t1, t2, t3] \<and> io t0 = Some (NodeNums ! i ! 0)
                \<and> fo t1 = Some x \<and> fo t2 = Some y \<and> fo t3 = Some z
                \<and> take 3 (NodeCoords ! i) = [PFloat x, PFloat y, PFloat z]"
  proof (intro allI impI)
    fix i assume "i < nat n"
    with node_lines_rows [OF nl] have
      "node_line io fo d (rest ! i) = Inr (NodeNums ! i, NodeCoords ! i)" by simp
    from node_line_InrD [OF this]
    show "\<exists>t0 t1 t2 t3 x y z.
                split_ws (rest ! i) = [t0, t1, t2, t3] \<and> io t0 = Some (NodeNums ! i ! 0)
                \<and> fo t1 = Some x \<and> fo t2 = Some y \<and> fo t3 = Some z
                \<and> take 3 (NodeCoords ! i) = [PFloat x, PFloat y, PFloat z]"
      by auto
  qed
next
  assume ord: "(\<forall>i < nat n. NodeNums ! i ! 0 = int i + 1) \<and> (\<forall>i < nat n. owner (int i + 1) = rank)"
  from assms(1) have "node_lines io fo d (nat n) rest = Inr (NodeNums, NodeCoords)"
    by (auto simp: read_nodes_def bind_err_Inr_iff)
  from node_lines_shape [OF this] have
    sh: "length NodeNums = nat n" "length NodeCoords = nat n"
      "\<forall>i < nat n. NodeNums ! i \<noteq> [] \<and> 3 \<le> length (NodeCoords ! i)"
    by simp_all
  have "\<forall>i \<in> set [0..<nat n]. i < length NodeNums \<and> i < length NodeCoords \<and> NodeNums ! i \<noteq> []
          \<and> NodeNums ! i ! 0 = int i + 1 \<and> owner (int i + 1) = rank \<and> 3 \<le> length (NodeCoords ! i)"
    using sh ord by simp
  from geometry_loop_ordered [OF this, of g0] obtain geo where
    geo: "geometry_loop owner rank NodeNums NodeCoords [0..<nat n] g0 = Inr geo"
      "\<forall>i \<in> set [0..<nat n]. geo (int i + 1, 1) = NodeCoords ! i ! 0
          \<and> geo (int i + 1, 2) = NodeCoords ! i ! 1 \<and> geo (int i + 1, 3) = NodeCoords ! i ! 2"
    by auto
  have "map (\<lambda>i. [geo (int i + 1, 1), geo (int i + 1, 2), geo (int i + 1, 3)]) [0..<nat n] =
          map (take 3) NodeCoords"
  proof (rule nth_equalityI)
    show "length (map (\<lambda>i. [geo (int i + 1, 1), geo (int i + 1, 2), geo (int i + 1, 3)]) [0..<nat n]) =
        length (map (take 3) NodeCoords)"
      using sh(2) by simp
  next
    fix i
    assume "i < length (map (\<lambda>i. [geo (int i + 1, 1), geo (int i + 1, 2), geo (int i + 1, 3)]) [0..<nat n])"
    then have i: "i < nat n" by simp
    with sh(3) have "take 3 (NodeCoords ! i) = [NodeCoords ! i ! 0, NodeCoords ! i ! 1, NodeCoords ! i ! 2]"
      by (simp add: take_three)
    with geo(2) i sh(2)
    show "map (\<lambda>i. [geo (int i + 1, 1), geo (int i + 1, 2), geo (int i + 1, 3)]) [0..<nat n] ! i =
        map (take 3) NodeCoords ! i"
      by simp
  qed
  with geo(1) show "map_sum id (\<lambda>geo. map (\<lambda>i. [geo (int i + 1, 1), geo (int i + 1, 2), geo (int i + 1, 3)])
                               [0..<nat n])
             (set_geometry owner rank n NodeNums NodeCoords g0) =
           Inr (map (take 3) NodeCoords)"
    by (simp add: set_geometry_def)
qed

theorem vtk_export_alignment_witness:
  "bind_err (elements_list 1 (\<lambda>e k. int k + 1))
      (\<lambda>el. vtk_export (PFloat (Dec 0 1)) 4
          [[PFloat (Dec 0 1), PFloat (Dec 0 1), PFloat (Dec 0 1)],
           [PFloat (Dec 10 1), PFloat (Dec 0 1), PFloat (Dec 0 1)],
           [PFloat (Dec 0 1), PFloat (Dec 10 1), PFloat (Dec 0 1)],
           [PFloat (Dec 0 1), PFloat (Dec 0 1), PFloat (Dec 10 1)]] el
          (\<lambda>(node, c). PFloat (Dec (node * 10) 1))) =
     Inr ([[PFloat (Dec 0 1), PFloat (Dec 0 1), PFloat (Dec 0 1)],
           [PFloat (Dec 10 1), PFloat (Dec 0 1), PFloat (Dec 0 1)],
           [PFloat (Dec 0 1), PFloat (Dec 10 1), PFloat (Dec 0 1)],
           [PFloat (Dec 0 1), PFloat (Dec 0 1), PFloat (Dec 10 1)]],
          [[0, 1, 2, 3]],
          [PFloat (Dec 10 1), PFloat (Dec 20 1), PFloat (Dec 30 1), PFloat (Dec 40 1)])
   \<and> map_sum id (\<lambda>geo. map (\<lambda>i. [geo (int i + 1, 1), geo (int i + 1, 2), geo (int i + 1, 3)])
                               [0..<nat 4])
       (set_geometry (\<lambda>node. 0) 0 4 [[1, 0], [2, 0], [3, 0], [4, 0]]
          [[PFloat (Dec 0 1), PFloat (Dec 0 1), PFloat (Dec 0 1)],
           [PFloat (Dec 10 1), PFloat (Dec 0 1), PFloat (Dec 0 1)],
           [PFloat (Dec 0 1), PFloat (Dec 10 1), PFloat (Dec 0 1)],
           [PFloat (Dec 0 1), PFloat (Dec 0 1), PFloat (Dec 10 1)]] (\<lambda>key. PInt 0)) =
     Inr [[PFloat (Dec 0 1), PFloat (Dec 0 1), PFloat (Dec 0 1)],
          [PFloat (Dec 10 1), PFloat (Dec 0 1), PFloat (Dec 0 1)],
          [PFloat (Dec 0 1), PFloat (Dec 10 1), PFloat (Dec 0 1)],
          [PFloat (Dec 0 1), PFloat (Dec 0 1), PFloat (Dec 10 1)]]
   \<and> (\<exists>t0 t1 t2 t3 x y z.
         split_ws ''2 1.0 0.0 0.0'' = [t0, t1, t2, t3] \<and> dec_int t0 = Some 2
         \<and> dec_float t1 = Some x \<and> dec_float t2 = Some y \<and> dec_float t3 = Some z
         \<and> [PFloat (Dec 10 1), PFloat (Dec 0 1), PFloat (Dec 0 1)] = [PFloat x, PFloat y, PFloat z])"
proof -
  let ?NC = "[[PFloat (Dec 0 1), PFloat (Dec 0 1), PFloat (Dec 0 1)],
           [PFloat (Dec 10 1), PFloat (Dec 0 1), PFloat (Dec 0 1)],
           [PFloat (Dec 0 1), PFloat (Dec 10 1), PFloat (Dec 0 1)],
           [PFloat (Dec 0 1), PFloat (Dec 0 1), PFloat (Dec 10 1)]]"
  let ?NN = "[[1, 0], [2, 0], [3, 0], [4, 0]] :: int list list"
  let ?rest = "[''1 0.0 0.0 0.0'', ''2 1.0 0.0 0.0'', ''3 0.0 1.0 0.0'', ''4 0.0 0.0 1.0'']"
  let ?sol = "\<lambda>(node, c :: nat). PFloat (Dec (node * 10) 1)"
  have r: "read_nodes dec_int dec_float (''4 3 0 0'' # ?rest) = Inr ((4, 3, 0, 0), ?NN, ?NC)"
    by code_simp
  have n: "(0::int) \<le> 4" and m: "(0::int) < 1" by simp_all
  have ord: "(\<forall>i < nat 4. ?NN ! i ! 0 = int i + 1) \<and> (\<forall>i < nat 4. (\<lambda>node :: int. 0 :: int) (int i + 1) = 0)"
    by (simp add: eval_nat_numeral less_Suc_eq)
  have e1: "map (\<lambda>j. [(\<lambda>(e :: int) k. int k + 1) (int j + 1) 0 - 1, (\<lambda>(e :: int) k. int k + 1) (int j + 1) 1 - 1,
                      (\<lambda>(e :: int) k. int k + 1) (int j + 1) 2 - 1, (\<lambda>(e :: int) k. int k + 1) (int j + 1) 3 - 1])
             [0..<nat 1] = [[0, 1, 2, 3]]"
    by code_simp
  have e2: "map (\<lambda>i. ?sol (int i + 1, 1)) [0..<nat 4] =
      [PFloat (Dec 10 1), PFloat (Dec 20 1), PFloat (Dec 30 1), PFloat (Dec 40 1)]"
    by code_simp
  have e3: "map (take 3) ?NC = ?NC" by code_simp
  have i: "(1::nat) < nat 4" by simp
  have ri: "?rest ! 1 = ''2 1.0 0.0 0.0''" "?NN ! 1 ! 0 = 2"
    "take 3 (?NC ! 1) = [PFloat (Dec 10 1), PFloat (Dec 0 1), PFloat (Dec 0 1)]"
    by simp_all
  note inst = vtk_export_alignment [OF r n m, of "\<lambda>e k. int k + 1" "PFloat (Dec 0 1)" ?sol
      "\<lambda>node. 0" 0 "\<lambda>key. PInt 0"]
  from inst have a: "bind_err (elements_list 1 (\<lambda>e k. int k + 1))
      (\<lambda>el. vtk_export (PFloat (Dec 0 1)) 4 ?NC el ?sol) =
     Inr (?NC, [[0, 1, 2, 3]],
          [PFloat (Dec 10 1), PFloat (Dec 20 1), PFloat (Dec 30 1), PFloat (Dec 40 1)])"
    unfolding e1 e2 by (rule conjunct1)
  from inst ord have b: "map_sum id (\<lambda>geo. map (\<lambda>i. [geo (int i + 1, 1), geo (int i + 1, 2), geo (int i + 1, 3)])
                               [0..<nat 4])
       (set_geometry (\<lambda>node. 0) 0 4 ?NN ?NC (\<lambda>key. PInt 0)) = Inr ?NC"
    unfolding e3 by blast
  from inst i have "\<exists>t0 t1 t2 t3 x y z.
         split_ws (?rest ! 1) = [t0, t1, t2, t3] \<and> dec_int t0 = Some (?NN ! 1 ! 0)
         \<and> dec_float t1 = Some x \<and> dec_float t2 = Some y \<and> dec_float t3 = Some z
         \<and> take 3 (?NC ! 1) = [PFloat x, PFloat y, PFloat z]"
    by blast
  then have c: "\<exists>t0 t1 t2 t3 x y z.
         split_ws ''2 1.0 0.0 0.0'' = [t0, t1, t2, t3] \<and> dec_int t0 = Some 2
         \<and> dec_float t1 = Some x \<and> dec_float t2 = Some y \<and> dec_float t3 = Some z
         \<and> [PFloat (Dec 10 1), PFloat (Dec 0 1), PFloat (Dec 0 1)] = [PFloat x, PFloat y, PFloat z]"
    unfolding ri .
  from a b c show ?thesis by (intro conjI)
qed

text \<open>
  Claim C6 as stated fails for the points array: when the node file of a four-node mesh
  lists node 2 before node 1, row 0 of the points array holds the coordinates of node 2,
  while the geometric field holds other coordinates for node 1, and row 0 of the solution
  data and the connectivity entry 0 stand for node 1.
\<close>

theorem points_alignment_counterexample:
  "read_nodes dec_int dec_float
     [''4 3 0 0'', ''2 1.0 0.0 0.0'', ''1 0.0 0.0 0.0'', ''3 0.0 1.0 0.0'', ''4 0.0 0.0 1.0''] =
     Inr ((4, 3, 0, 0), [[2, 0], [1, 0], [3, 0], [4, 0]],
          [[PFloat (Dec 10 1), PFloat (Dec 0 1), PFloat (Dec 0 1)],
           [PFloat (Dec 0 1), PFloat (Dec 0 1), PFloat (Dec 0 1)],
           [PFloat (Dec 0 1), PFloat (Dec 10 1), PFloat (Dec 0 1)],
           [PFloat (Dec 0 1), PFloat (Dec 0 1), PFloat (Dec 10 1)]])
   \<and> bind_err (elements_list 1 (\<lambda>e k. int k + 1))
      (\<lambda>el. vtk_export (PFloat (Dec 0 1)) 4
          [[PFloat (Dec 10 1), PFloat (Dec 0 1), PFloat (Dec 0 1)],
           [PFloat (Dec 0 1), PFloat (Dec 0 1), PFloat (Dec 0 1)],
           [PFloat (Dec 0 1), PFloat (Dec 10 1), PFloat (Dec 0 1)],
           [PFloat (Dec 0 1), PFloat (Dec 0 1), PFloat (Dec 10 1)]] el
          (\<lambda>(node, c). PFloat (Dec (node * 10) 1))) =
     Inr ([[PFloat (Dec 10 1), PFloat (Dec 0 1), PFloat (Dec 0 1)],
           [PFloat (Dec 0 1), PFloat (Dec 0 1), PFloat (Dec 0 1)],
           [PFloat (Dec 0 1), PFloat (Dec 10 1), PFloat (Dec 0 1)],
           [PFloat (Dec 0 1), PFloat (Dec 0 1), PFloat (Dec 10 1)]],
          [[0, 1, 2, 3]],
          [PFloat (Dec 10 1), PFloat (Dec 20 1), PFloat (Dec 30 1), PFloat (Dec 40 1)])
   \<and> map_sum id (\<lambda>geo. [geo (1, 1), geo (1, 2), geo (1, 3)])
       (set_geometry (\<lambda>node. 0) 0 4 [[2, 0], [1, 0], [3, 0], [4, 0]]
          [[PFloat (Dec 10 1), PFloat (Dec 0 1), PFloat (Dec 0 1)],
           [PFloat (Dec 0 1), PFloat (Dec 0 1), PFloat (Dec 0 1)],
           [PFloat (Dec 0 1), PFloat (Dec 10 1), PFloat (Dec 0 1)],
           [PFloat (Dec 0 1), PFloat (Dec 0 1), PFloat (Dec 10 1)]] (\<lambda>key. PInt 0)) =
     Inr [PFloat (Dec 0 1), PFloat (Dec 0 1), PFloat (Dec 0 1)]
   \<and> [PFloat (Dec 10 1), PFloat (Dec 0 1), PFloat (Dec 0 1)] \<noteq>
       [PFloat (Dec 0 1), PFloat (Dec 0 1), PFloat (Dec 0 1) :: dec pynum]"
  by code_simp

end
